theory Spec2Isabelle
  imports Complex_Main "HOL-Library.AList"
begin

section \<open>The notebook server of \<^verbatim>\<open>server.py\<close>\<close>

text \<open>
  The development embeds the class \<^verbatim>\<open>NotebookServer\<close> (\<^verbatim>\<open>connect\<close>,
  \<^verbatim>\<open>disconnect\<close>, \<^verbatim>\<open>handle_message\<close>, \<^verbatim>\<open>execute\<close>,
  \<^verbatim>\<open>get_completions\<close>), the dictionary \<^verbatim>\<open>global_settings\<close> and its writer
  \<^verbatim>\<open>update_settings\<close>. The process state is passed explicitly; every exception the
  Python raises is a value of the model.

  What the file imports and does not define (the Python interpreter behind
  \<^verbatim>\<open>ast.parse\<close>, \<^verbatim>\<open>exec\<close> and \<^verbatim>\<open>eval\<close>, pandas, the PNG renderer, jedi,
  the JSON decoder) is a parameter of the model: the record \<open>python\<close> below. The
  theorems hold for every value of that record.
\<close>

subsection \<open>Decoded JSON\<close>

text \<open>
  What \<^verbatim>\<open>json.loads\<close> returns. A JSON object is a Python dictionary, kept as the list
  of its items and read with \<open>map_of\<close>.
\<close>

datatype json =
    JNull
  | JBool bool
  | JInt int
  | JFloat real
  | JString string
  | JArray "json list"
  | JObject "(string \<times> json) list"

text \<open>\<^verbatim>\<open>data.get(key)\<close>: the value, or \<^verbatim>\<open>None\<close> for a missing key.\<close>

definition dict_get :: "(string \<times> json) list \<Rightarrow> string \<Rightarrow> json" where
  "dict_get data key = (case map_of data key of None \<Rightarrow> JNull | Some v \<Rightarrow> v)"

text \<open>Python's truth value of a decoded JSON value (\<^verbatim>\<open>bool(x)\<close>).\<close>

fun py_bool :: "json \<Rightarrow> bool" where
  "py_bool JNull = False"
| "py_bool (JBool b) = b"
| "py_bool (JInt i) = (i \<noteq> 0)"
| "py_bool (JFloat r) = (r \<noteq> 0)"
| "py_bool (JString s) = (s \<noteq> [])"
| "py_bool (JArray xs) = (xs \<noteq> [])"
| "py_bool (JObject kvs) = (kvs \<noteq> [])"

subsection \<open>Exceptions\<close>

text \<open>
  An exception raised by the interpreter or by a library: whether it is an instance of
  \<^verbatim>\<open>Exception\<close> (what \<^verbatim>\<open>except Exception\<close> tests; \<^verbatim>\<open>SystemExit\<close> and
  \<^verbatim>\<open>KeyboardInterrupt\<close> are not) and the text \<^verbatim>\<open>traceback.format_exc()\<close> gives
  for it.
\<close>

datatype raised = Raised (is_Exception: bool) (format_exc: string)

text \<open>
  What leaves a method of the server as an exception: the lookups of the handler itself,
  an operation on a closed buffer, or an exception of the interpreter that no handler
  caught.
\<close>

datatype error =
    KeyError string
  | AttributeError string
  | TypeError string
  | ValueError string
  | Uncaught raised

subsection \<open>HTML escaping\<close>

text \<open>
  \<^verbatim>\<open>html.escape(s)\<close> with its default \<^verbatim>\<open>quote=True\<close>: the five characters
  \<^verbatim>\<open>& < > " '\<close> are replaced, \<^verbatim>\<open>&\<close> first, so the replacement texts are not escaped
  again; character by character that is the map below.
\<close>

definition escape_char :: "char \<Rightarrow> string" where
  "escape_char c =
     (if c = CHR ''&'' then ''&amp;''
      else if c = CHR ''<'' then ''&lt;''
      else if c = CHR ''>'' then ''&gt;''
      else if c = CHR 0x22 then ''&quot;''
      else if c = CHR 0x27 then ''&#x27;''
      else [c])"

definition escape :: "string \<Rightarrow> string" where
  "escape s = concat (map escape_char s)"

subsection \<open>Base64\<close>

text \<open>
  \<^verbatim>\<open>base64.b64encode(bs).decode()\<close>: three bytes give four characters of the
  alphabet, the last group is padded with \<^verbatim>\<open>=\<close>. A byte string is a \<open>string\<close>.
\<close>

definition b64_char :: "nat \<Rightarrow> char" where
  "b64_char n = ''ABCDEFGHIJKLMNOPQRSTUVWXYZabcdefghijklmnopqrstuvwxyz0123456789+/'' ! n"

fun b64_groups :: "nat list \<Rightarrow> string" where
  "b64_groups [] = []"
| "b64_groups [a] = [b64_char (a div 4), b64_char (a mod 4 * 16), CHR ''='', CHR ''='']"
| "b64_groups [a, b] =
     [b64_char (a div 4), b64_char (a mod 4 * 16 + b div 16), b64_char (b mod 16 * 4), CHR ''='']"
| "b64_groups (a # b # c # rest) =
     [b64_char (a div 4), b64_char (a mod 4 * 16 + b div 16),
      b64_char (b mod 16 * 4 + c div 64), b64_char (c mod 64)] @ b64_groups rest"

definition b64encode :: "string \<Rightarrow> string" where
  "b64encode bs = b64_groups (map of_char bs)"

subsection \<open>The output buffer\<close>

text \<open>
  \<^verbatim>\<open>io.StringIO()\<close>: the text written so far, the position of the next write, and
  whether the buffer has been closed. While a cell runs the buffer is
  \<^verbatim>\<open>sys.stdout\<close>, so the cell can move the position and close it. \<^verbatim>\<open>write\<close> puts
  its text at the position, over what is there (after padding with NUL when the position
  is past the end); \<^verbatim>\<open>truncate\<close> cuts the text and leaves the position. Every
  operation on a closed buffer raises \<^verbatim>\<open>ValueError\<close>, here \<open>None\<close>.
\<close>

record stringio =
  sio_text :: string
  sio_pos :: nat
  sio_closed :: bool

definition StringIO :: stringio where
  "StringIO = \<lparr>sio_text = [], sio_pos = 0, sio_closed = False\<rparr>"

definition StringIO_write :: "string \<Rightarrow> stringio \<Rightarrow> stringio option" where
  "StringIO_write s b =
     (if sio_closed b then None
      else Some (b\<lparr>sio_text :=
                     take (sio_pos b)
                       (sio_text b @ replicate (sio_pos b - length (sio_text b)) (CHR 0x00))
                     @ s @ drop (sio_pos b + length s) (sio_text b),
                   sio_pos := sio_pos b + length s\<rparr>))"

definition StringIO_truncate :: "nat \<Rightarrow> stringio \<Rightarrow> stringio option" where
  "StringIO_truncate n b =
     (if sio_closed b then None else Some (b\<lparr>sio_text := take n (sio_text b)\<rparr>))"

definition StringIO_seek :: "nat \<Rightarrow> stringio \<Rightarrow> stringio option" where
  "StringIO_seek offset b = (if sio_closed b then None else Some (b\<lparr>sio_pos := offset\<rparr>))"

definition StringIO_getvalue :: "stringio \<Rightarrow> string option" where
  "StringIO_getvalue b = (if sio_closed b then None else Some (sio_text b))"

text \<open>
  The \<^verbatim>\<open>ValueError\<close> of a closed buffer, raised by a write inside the \<^verbatim>\<open>try\<close>
  and as it leaves \<^verbatim>\<open>execute\<close>. The traceback of the first is never rendered: the
  handler's own \<^verbatim>\<open>buf.truncate(0)\<close> raises on the same buffer.
\<close>

definition closed_file :: string where
  "closed_file = ''I/O operation on closed file''"

definition closed_file_raised :: raised where
  "closed_file_raised = Raised True (''ValueError: '' @ closed_file)"

subsection \<open>The figures of pyplot\<close>

text \<open>
  \<^verbatim>\<open>matplotlib.pyplot\<close> keeps the open figures of the process in creation order, the
  current one last. Of a figure the server reads \<^verbatim>\<open>fig.axes\<close> only.
  \<^verbatim>\<open>plt.gcf()\<close> returns the current figure and opens an empty one when there is none;
  \<^verbatim>\<open>plt.close(fig)\<close>, called on the figure \<^verbatim>\<open>gcf\<close> returned, removes it.
\<close>

record 'a figure =
  axes :: "'a list"

definition gcf :: "'a figure list \<Rightarrow> 'a figure \<times> 'a figure list" where
  "gcf figs = (if figs = [] then (\<lparr>axes = []\<rparr>, [\<lparr>axes = []\<rparr>]) else (last figs, figs))"

definition plt_close :: "'a figure list \<Rightarrow> 'a figure list" where
  "plt_close figs = butlast figs"

subsection \<open>Sessions and the state of the process\<close>

type_synonym 'v namespace = "(string \<times> 'v) list"

type_synonym websocket = nat

text \<open>
  An entry of \<^verbatim>\<open>self.sessions\<close>: the dictionary with the keys \<^verbatim>\<open>'locals'\<close> and
  \<^verbatim>\<open>'websocket'\<close>. The handler reads the second with \<^verbatim>\<open>.get('websocket')\<close> and
  tests its truth value, so an entry without a channel is \<open>None\<close>.
\<close>

record 'v session =
  locals :: "'v namespace"
  websocket :: "websocket option"

record settings =
  enable_autocomplete :: bool

text \<open>The module-level \<^verbatim>\<open>global_settings = {"enable_autocomplete": True}\<close>.\<close>

definition global_settings_init :: settings where
  "global_settings_init = \<lparr>enable_autocomplete = True\<rparr>"

text \<open>What the server does on a channel: \<^verbatim>\<open>accept()\<close> and \<^verbatim>\<open>send_json(...)\<close>.\<close>

datatype frame = Accept | SendJson json

text \<open>
  The state of the process: the registry \<^verbatim>\<open>server.sessions\<close>, the settings, the
  figures of pyplot, and the frames put on the channels so far, in order.
\<close>

record ('v, 'a) state =
  sessions :: "string \<rightharpoonup> 'v session"
  global_settings :: settings
  pyplot :: "'a figure list"
  wire :: "(websocket \<times> frame) list"

definition send_json :: "websocket \<Rightarrow> json \<Rightarrow> ('v, 'a) state \<Rightarrow> ('v, 'a) state" where
  "send_json ws msg st = st\<lparr>wire := wire st @ [(ws, SendJson msg)]\<rparr>"

subsection \<open>The interpreter and the libraries\<close>

text \<open>
  A statement of a parsed module: \<^verbatim>\<open>ast.Expr\<close> with its \<^verbatim>\<open>value\<close>, or any other
  statement node.
\<close>

datatype ('e, 's) stmt = Expr 'e | Stmt 's

text \<open>
  What a running cell reads and writes: the session's namespace (the dictionary given
  to \<^verbatim>\<open>exec\<close> and \<^verbatim>\<open>eval\<close> as globals), the buffer \<^verbatim>\<open>buf\<close> that
  \<^verbatim>\<open>redirect_stdout\<close> puts in place of the standard output, the figures of pyplot.
\<close>

record ('v, 'a) machine =
  session_locals :: "'v namespace"
  buf :: stringio
  figs :: "'a figure list"

record ('v, 'a, 'e, 's) python =
  json_loads :: "string \<Rightarrow> raised + json"
  ast_parse :: "json \<Rightarrow> raised + ('e, 's) stmt list"
  py_exec :: "('e, 's) stmt list \<Rightarrow> ('v, 'a) machine \<Rightarrow> raised option \<times> ('v, 'a) machine"
  py_eval :: "'e \<Rightarrow> ('v, 'a) machine \<Rightarrow> (raised + 'v) \<times> ('v, 'a) machine"
  isinstance_DataFrame :: "'v \<Rightarrow> bool"
  is_None :: "'v \<Rightarrow> bool"
  to_html :: "'v \<Rightarrow> ('v, 'a) machine \<Rightarrow> (raised + string) \<times> ('v, 'a) machine"
  py_str :: "'v \<Rightarrow> ('v, 'a) machine \<Rightarrow> (raised + string) \<times> ('v, 'a) machine"
  savefig :: "'a figure \<Rightarrow> raised + string"
  jedi_complete :: "'v namespace \<Rightarrow> json \<Rightarrow> json \<Rightarrow> json \<Rightarrow> raised + string list"
  plt_module :: 'v
  pd_module :: 'v

text \<open>
  \<^item> \<open>py_exec P body\<close> is \<^verbatim>\<open>exec\<close> of the compiled module with that body
    (\<^verbatim>\<open>exec(compile(ast.Module(body, ...)), session_locals)\<close>, and
    \<^verbatim>\<open>exec(code, session_locals)\<close> for the body \<^verbatim>\<open>code\<close> parses to);
    \<open>py_eval P e\<close> is \<^verbatim>\<open>eval(compile(ast.Expression(e)), session_locals)\<close>.
  \<^item> \<open>to_html P v\<close> is \<^verbatim>\<open>v.to_html()\<close>, \<open>py_str P v\<close> is \<^verbatim>\<open>str(v)\<close>; both may
    run code of the value's class.
  \<^item> \<open>savefig P fig\<close> is the PNG that \<^verbatim>\<open>fig.savefig(img_buf, format='png', ...)\<close>
    writes.
  \<^item> \<open>jedi_complete P ns code line column\<close> is the body of the \<^verbatim>\<open>try\<close> of
    \<^verbatim>\<open>get_completions\<close>: the names of
    \<^verbatim>\<open>jedi.Interpreter(code, [ns]).complete(line=line + 1, column=column)\<close>.
  \<^item> \<open>plt_module P\<close> and \<open>pd_module P\<close> are the two module objects every namespace
    starts with.
\<close>

subsection \<open>\<^verbatim>\<open>NotebookServer.execute\<close>\<close>

definition SESSION_EXPIRED :: string where
  \<open>SESSION_EXPIRED = ''<div class="error">Session expired. Please refresh.</div>''\<close>

definition error_fragment :: "string \<Rightarrow> string" where
  \<open>error_fragment tb = ''<div class="error">'' @ escape tb @ ''</div>''\<close>

definition img_fragment :: "string \<Rightarrow> string" where
  \<open>img_fragment img_html = ''<img src="data:image/png;base64,'' @ img_html @ ''"><br>''\<close>

text \<open>
  \<^verbatim>\<open>tree.body and isinstance(tree.body[-1], ast.Expr)\<close>, with the expression
  \<^verbatim>\<open>tree.body[-1].value\<close> when it holds.
\<close>

definition trailing_expr :: "('e, 's) stmt list \<Rightarrow> 'e option" where
  "trailing_expr body =
     (if body = [] then None
      else (case last body of Expr e \<Rightarrow> Some e | Stmt s \<Rightarrow> None))"

text \<open>\<^verbatim>\<open>buf.write(s)\<close> inside the \<^verbatim>\<open>try\<close>.\<close>

definition buf_write ::
  "string \<Rightarrow> ('v, 'a) machine \<Rightarrow> raised option \<times> ('v, 'a) machine"
where
  "buf_write s m =
     (case StringIO_write s (buf m) of
        None \<Rightarrow> (Some closed_file_raised, m)
      | Some b \<Rightarrow> (None, m\<lparr>buf := b\<rparr>))"

text \<open>The first half of the \<^verbatim>\<open>try\<close> block: parse, run, display the last value.\<close>

definition execute_block ::
  "('v, 'a, 'e, 's) python \<Rightarrow> json \<Rightarrow> ('v, 'a) machine \<Rightarrow> raised option \<times> ('v, 'a) machine"
where
  "execute_block P code m =
     (case ast_parse P code of
        Inl e \<Rightarrow> (Some e, m)
      | Inr body \<Rightarrow>
          (case trailing_expr body of
             Some v \<Rightarrow>
               (case (if length body > 1 then py_exec P (butlast body) m else (None, m)) of
                  (Some e, m1) \<Rightarrow> (Some e, m1)
                | (None, m1) \<Rightarrow>
                    (case py_eval P v m1 of
                       (Inl e, m2) \<Rightarrow> (Some e, m2)
                     | (Inr result, m2) \<Rightarrow>
                         if isinstance_DataFrame P result then
                           (case to_html P result m2 of
                              (Inl e, m3) \<Rightarrow> (Some e, m3)
                            | (Inr table, m3) \<Rightarrow> buf_write table m3)
                         else if \<not> is_None P result then
                           (case py_str P result m2 of
                              (Inl e, m3) \<Rightarrow> (Some e, m3)
                            | (Inr s, m3) \<Rightarrow> buf_write (escape s) m3)
                         else (None, m2)))
           | None \<Rightarrow> py_exec P body m))"

text \<open>The second half: the current figure, saved, closed and embedded when it has axes.\<close>

definition execute_figure ::
  "('v, 'a, 'e, 's) python \<Rightarrow> ('v, 'a) machine \<Rightarrow> raised option \<times> ('v, 'a) machine"
where
  "execute_figure P m =
     (case gcf (figs m) of
        (fig, figs1) \<Rightarrow>
          if axes fig \<noteq> [] then
            (case savefig P fig of
               Inl e \<Rightarrow> (Some e, m\<lparr>figs := figs1\<rparr>)
             | Inr png \<Rightarrow>
                 buf_write (img_fragment (b64encode png)) (m\<lparr>figs := plt_close figs1\<rparr>))
          else (None, m\<lparr>figs := figs1\<rparr>))"

text \<open>The body of the \<^verbatim>\<open>try\<close>: the second half runs when the first raised nothing.\<close>

definition execute_try ::
  "('v, 'a, 'e, 's) python \<Rightarrow> json \<Rightarrow> ('v, 'a) machine \<Rightarrow> raised option \<times> ('v, 'a) machine"
where
  "execute_try P code m =
     (case execute_block P code m of
        (Some e, m1) \<Rightarrow> (Some e, m1)
      | (None, m1) \<Rightarrow> execute_figure P m1)"

text \<open>
  The cell starts on the session's namespace, an empty buffer and the figures of the
  process; what it leaves of the namespace and of the figures is the state afterwards.
\<close>

definition cell_machine :: "'v session \<Rightarrow> ('v, 'a) state \<Rightarrow> ('v, 'a) machine" where
  "cell_machine session_env st =
     \<lparr>session_locals = locals session_env, buf = StringIO, figs = pyplot st\<rparr>"

definition store_machine ::
  "string \<Rightarrow> 'v session \<Rightarrow> ('v, 'a) machine \<Rightarrow> ('v, 'a) state \<Rightarrow> ('v, 'a) state"
where
  "store_machine session_id session_env m st =
     st\<lparr>sessions := (sessions st)(session_id \<mapsto> session_env\<lparr>locals := session_locals m\<rparr>),
        pyplot := figs m\<rparr>"

text \<open>
  The handler of \<^verbatim>\<open>except Exception\<close>: \<^verbatim>\<open>buf.truncate(0)\<close>,
  \<^verbatim>\<open>buf.seek(0)\<close>, the write of the escaped traceback, and the
  \<^verbatim>\<open>buf.getvalue()\<close> of the \<^verbatim>\<open>return\<close>.
\<close>

definition execute_except :: "string \<Rightarrow> stringio \<Rightarrow> string option" where
  "execute_except tb b =
     Option.bind (StringIO_truncate 0 b) (\<lambda>b1.
     Option.bind (StringIO_seek 0 b1) (\<lambda>b2.
     Option.bind (StringIO_write (error_fragment tb) b2) StringIO_getvalue))"

text \<open>
  \<^verbatim>\<open>execute(session_id, code)\<close>. The namespace is the session's own dictionary,
  changed in place: what the cell leaves in it is in the registry afterwards, also when
  the cell raised. \<^verbatim>\<open>except Exception\<close> replaces the text of the buffer by the
  escaped traceback; any other exception leaves \<^verbatim>\<open>execute\<close>, and so does the
  \<^verbatim>\<open>ValueError\<close> of a buffer the cell has closed.
\<close>

definition execute ::
  "('v, 'a, 'e, 's) python \<Rightarrow> string \<Rightarrow> json \<Rightarrow> ('v, 'a) state
     \<Rightarrow> (error + string) \<times> ('v, 'a) state"
where
  "execute P session_id code st =
     (case sessions st session_id of
        None \<Rightarrow> (Inr SESSION_EXPIRED, st)
      | Some session_env \<Rightarrow>
          (case execute_try P code (cell_machine session_env st) of
             (None, m) \<Rightarrow>
               (case StringIO_getvalue (buf m) of
                  Some output \<Rightarrow> (Inr output, store_machine session_id session_env m st)
                | None \<Rightarrow>
                    (Inl (ValueError closed_file), store_machine session_id session_env m st))
           | (Some e, m) \<Rightarrow>
               if is_Exception e then
                 (case execute_except (format_exc e) (buf m) of
                    Some output \<Rightarrow> (Inr output, store_machine session_id session_env m st)
                  | None \<Rightarrow>
                      (Inl (ValueError closed_file), store_machine session_id session_env m st))
               else (Inl (Uncaught e), store_machine session_id session_env m st)))"

subsection \<open>\<^verbatim>\<open>NotebookServer.get_completions\<close>\<close>

text \<open>
  \<^verbatim>\<open>if not session_locals\<close> holds for a missing session and for an empty namespace.
  The line \<^verbatim>\<open>print(f"Completion error: {e}")\<close> writes to the console of the process,
  which the model does not keep.
\<close>

definition get_completions ::
  "('v, 'a, 'e, 's) python \<Rightarrow> string \<Rightarrow> json \<Rightarrow> json \<Rightarrow> json \<Rightarrow> ('v, 'a) state
     \<Rightarrow> error + string list"
where
  "get_completions P session_id code line column st =
     (case sessions st session_id of
        None \<Rightarrow> Inr []
      | Some session_env \<Rightarrow>
          if locals session_env = [] then Inr []
          else (case jedi_complete P (locals session_env) code line column of
                  Inr names \<Rightarrow> Inr names
                | Inl e \<Rightarrow> if is_Exception e then Inr [] else Inl (Uncaught e)))"

subsection \<open>\<^verbatim>\<open>NotebookServer.connect\<close> and \<^verbatim>\<open>disconnect\<close>\<close>

definition connect ::
  "('v, 'a, 'e, 's) python \<Rightarrow> websocket \<Rightarrow> string \<Rightarrow> ('v, 'a) state \<Rightarrow> ('v, 'a) state"
where
  "connect P ws session_id st =
     (let st1 = st\<lparr>wire := wire st @ [(ws, Accept)]\<rparr>
      in case sessions st1 session_id of
           None \<Rightarrow>
             st1\<lparr>sessions := (sessions st1)
                    (session_id \<mapsto>
                       \<lparr>locals = [(''plt'', plt_module P), (''pd'', pd_module P)],
                        websocket = Some ws\<rparr>)\<rparr>
         | Some session_env \<Rightarrow> st1)"

definition disconnect :: "string \<Rightarrow> ('v, 'a) state \<Rightarrow> ('v, 'a) state" where
  "disconnect session_id st =
     (case sessions st session_id of
        None \<Rightarrow> st
      | Some session_env \<Rightarrow> st\<lparr>sessions := (sessions st)(session_id := None)\<rparr>)"

subsection \<open>\<^verbatim>\<open>NotebookServer.handle_message\<close>\<close>

text \<open>
  \<^verbatim>\<open>self.sessions.get(key, {}).get('websocket')\<close> for a key taken from the message:
  the session ids of the registry are strings, so only a string finds an entry; a list
  or an object cannot be hashed and the lookup raises \<^verbatim>\<open>TypeError\<close>.
\<close>

definition target_websocket :: "('v, 'a) state \<Rightarrow> json \<Rightarrow> error + websocket option" where
  "target_websocket st key =
     (case key of
        JString sid \<Rightarrow>
          (case sessions st sid of None \<Rightarrow> Inr None | Some session_env \<Rightarrow> Inr (websocket session_env))
      | JArray xs \<Rightarrow> Inl (TypeError ''unhashable type: list'')
      | JObject kvs \<Rightarrow> Inl (TypeError ''unhashable type: dict'')
      | _ \<Rightarrow> Inr None)"

definition output_message :: "json \<Rightarrow> string \<Rightarrow> json" where
  "output_message cell_id output =
     JObject [(''type'', JString ''output''), (''cell_id'', cell_id), (''output'', JString output)]"

definition completions_message :: "json \<Rightarrow> string list \<Rightarrow> json" where
  "completions_message request_id completions =
     JObject [(''type'', JString ''completions''), (''request_id'', request_id),
              (''completions'', JArray (map JString completions))]"

definition design_applied_message :: "json \<Rightarrow> json" where
  "design_applied_message html = JObject [(''type'', JString ''design_applied''), (''html'', html)]"

text \<open>The branch \<^verbatim>\<open>msg_type == 'run_code'\<close>.\<close>

definition handle_run_code ::
  "('v, 'a, 'e, 's) python \<Rightarrow> websocket \<Rightarrow> string \<Rightarrow> (string \<times> json) list \<Rightarrow> ('v, 'a) state
     \<Rightarrow> error option \<times> ('v, 'a) state"
where
  "handle_run_code P ws session_id data st =
     (case map_of data ''code'' of
        None \<Rightarrow> (Some (KeyError ''code''), st)
      | Some code \<Rightarrow>
          (case execute P session_id code st of
             (Inl e, st1) \<Rightarrow> (Some e, st1)
           | (Inr output, st1) \<Rightarrow>
               (case map_of data ''cell_id'' of
                  None \<Rightarrow> (Some (KeyError ''cell_id''), st1)
                | Some cell_id \<Rightarrow> (None, send_json ws (output_message cell_id output) st1))))"

text \<open>The branch \<^verbatim>\<open>msg_type == 'get_completions'\<close>.\<close>

definition handle_get_completions ::
  "('v, 'a, 'e, 's) python \<Rightarrow> websocket \<Rightarrow> string \<Rightarrow> (string \<times> json) list \<Rightarrow> ('v, 'a) state
     \<Rightarrow> error option \<times> ('v, 'a) state"
where
  "handle_get_completions P ws session_id data st =
     (case (if \<not> enable_autocomplete (global_settings st) then Inr []
            else (case map_of data ''code'' of
                    None \<Rightarrow> Inl (KeyError ''code'')
                  | Some code \<Rightarrow>
                      (case map_of data ''line'' of
                         None \<Rightarrow> Inl (KeyError ''line'')
                       | Some line \<Rightarrow>
                           (case map_of data ''column'' of
                              None \<Rightarrow> Inl (KeyError ''column'')
                            | Some column \<Rightarrow> get_completions P session_id code line column st)))) of
        Inl e \<Rightarrow> (Some e, st)
      | Inr completions \<Rightarrow>
          (None, send_json ws (completions_message (dict_get data ''request_id'') completions) st))"

text \<open>The branch \<^verbatim>\<open>msg_type == 'apply_design'\<close>.\<close>

definition handle_apply_design ::
  "(string \<times> json) list \<Rightarrow> ('v, 'a) state \<Rightarrow> error option \<times> ('v, 'a) state"
where
  "handle_apply_design data st =
     (case target_websocket st (dict_get data ''session_id'') of
        Inl e \<Rightarrow> (Some e, st)
      | Inr None \<Rightarrow> (None, st)
      | Inr (Some target_ws) \<Rightarrow>
          (case map_of data ''html'' of
             None \<Rightarrow> (Some (KeyError ''html''), st)
           | Some html \<Rightarrow> (None, send_json target_ws (design_applied_message html) st)))"

text \<open>
  \<^verbatim>\<open>handle_message(websocket, session_id, message)\<close>. \<^verbatim>\<open>data.get('type')\<close> needs a
  dictionary: on any other decoded value it raises \<^verbatim>\<open>AttributeError\<close>.
\<close>

definition handle_message ::
  "('v, 'a, 'e, 's) python \<Rightarrow> websocket \<Rightarrow> string \<Rightarrow> string \<Rightarrow> ('v, 'a) state
     \<Rightarrow> error option \<times> ('v, 'a) state"
where
  "handle_message P ws session_id message st =
     (case json_loads P message of
        Inl e \<Rightarrow> (Some (Uncaught e), st)
      | Inr (JObject data) \<Rightarrow>
          (let msg_type = dict_get data ''type''
           in if msg_type = JString ''run_code'' then handle_run_code P ws session_id data st
              else if msg_type = JString ''get_completions'' then
                handle_get_completions P ws session_id data st
              else if msg_type = JString ''apply_design'' then handle_apply_design data st
              else (None, st))
      | Inr other \<Rightarrow> (Some (AttributeError ''get''), st))"

subsection \<open>The settings endpoint\<close>

text \<open>
  \<^verbatim>\<open>update_settings\<close> (\<^verbatim>\<open>POST /api/teacher/settings\<close>) for a request body that
  is a JSON object: the only place that writes the flag. The result is the HTTP status.
\<close>

definition update_settings ::
  "string option \<Rightarrow> (string \<times> json) list \<Rightarrow> ('v, 'a) state \<Rightarrow> nat \<times> ('v, 'a) state"
where
  "update_settings user_role data st =
     (if user_role \<noteq> Some ''teacher'' then (403, st)
      else (case map_of data ''enable_autocomplete'' of
              None \<Rightarrow> (200, st)
            | Some v \<Rightarrow>
                (200, st\<lparr>global_settings := (global_settings st)\<lparr>enable_autocomplete := py_bool v\<rparr>\<rparr>)))"

subsection \<open>The state at start-up\<close>

text \<open>
  \<^verbatim>\<open>server = NotebookServer()\<close> with \<^verbatim>\<open>self.sessions = {}\<close>, the settings as the
  module defines them, no figure, nothing sent.
\<close>

definition initial_state :: "('v, 'a) state" where
  "initial_state =
     \<lparr>sessions = Map.empty, global_settings = global_settings_init, pyplot = [], wire = []\<rparr>"

section \<open>A miniature interpreter\<close>

text \<open>
  One value of the record \<open>python\<close>, small enough to be evaluated: it instantiates the
  theorems below on concrete cells and messages. It reads a fragment of Python (integer
  and string literals, names, \<^verbatim>\<open>+\<close>, \<^verbatim>\<open>print(...)\<close>, \<^verbatim>\<open>plt.plot()\<close>,
  \<^verbatim>\<open>plt.figure()\<close>, \<^verbatim>\<open>pd.DataFrame()\<close>, \<^verbatim>\<open>sys.stdout.close()\<close>,
  \<^verbatim>\<open>sys.stdout.seek(0)\<close>, assignment to a name, \<^verbatim>\<open>import\<close> of a module,
  \<^verbatim>\<open>raise\<close> of a built-in exception class; statements separated by \<^verbatim>\<open>;\<close> or a
  newline; the names \<^verbatim>\<open>plt\<close>, \<^verbatim>\<open>pd\<close> and \<^verbatim>\<open>sys\<close> not rebound to other
  values) and JSON objects whose values are integers, \<^verbatim>\<open>true\<close>, \<^verbatim>\<open>false\<close>,
  \<^verbatim>\<open>null\<close>, \<^verbatim>\<open>[]\<close> or strings without \<^verbatim>\<open>,\<close>, \<^verbatim>\<open>:\<close> and escapes. Its tracebacks are the last line
  of Python's. No theorem about the server depends on it.
\<close>

definition strip :: "string \<Rightarrow> string" where
  "strip s = rev (dropWhile (\<lambda>c. c = CHR '' '') (rev (dropWhile (\<lambda>c. c = CHR '' '') s)))"

fun split_on :: "(char \<Rightarrow> bool) \<Rightarrow> string \<Rightarrow> string list" where
  "split_on sep [] = [[]]"
| "split_on sep (c # cs) =
     (if sep c then [] # split_on sep cs
      else (case split_on sep cs of [] \<Rightarrow> [[c]] | w # ws \<Rightarrow> (c # w) # ws))"

definition is_digit :: "char \<Rightarrow> bool" where
  "is_digit c = (c \<in> set ''0123456789'')"

definition is_name_char :: "char \<Rightarrow> bool" where
  "is_name_char c = (c \<in> set ''abcdefghijklmnopqrstuvwxyzABCDEFGHIJKLMNOPQRSTUVWXYZ_'')"

definition is_number :: "string \<Rightarrow> bool" where
  "is_number s = (s \<noteq> [] \<and> list_all is_digit s)"

definition is_name :: "string \<Rightarrow> bool" where
  "is_name s = (s \<noteq> [] \<and> list_all is_name_char s)"

definition number_value :: "string \<Rightarrow> int" where
  "number_value s = foldl (\<lambda>a c. 10 * a + (int (of_char c) - 48)) 0 s"

text \<open>The text between the double quotes of a string literal, when \<open>s\<close> is one.\<close>

definition quoted :: "string \<Rightarrow> string option" where
  "quoted s =
     (if 2 \<le> length s \<and> hd s = CHR 0x22 \<and> last s = CHR 0x22
         \<and> list_all (\<lambda>c. c \<noteq> CHR 0x22 \<and> c \<noteq> CHR 0x5C) (butlast (tl s))
      then Some (butlast (tl s)) else None)"

function show_nat :: "nat \<Rightarrow> string" where
  "show_nat n =
     (if n < 10 then [''0123456789'' ! n]
      else show_nat (n div 10) @ [''0123456789'' ! (n mod 10)])"
  by pat_completeness auto
termination
  by (relation "measure id") auto

definition show_int :: "int \<Rightarrow> string" where
  "show_int i = (if i < 0 then CHR ''-'' # show_nat (nat (- i)) else show_nat (nat i))"

datatype mexpr =
    Num int
  | Str string
  | Name string
  | Add mexpr mexpr
  | Print mexpr
  | Plot
  | NewFigure
  | Frame
  | CloseStdout
  | SeekStdout

datatype mstmt = Assign string mexpr | Raise string | Import string

datatype mval =
  VNone | VInt int | VStr string | VEmptyList | VFrame | VFigure | VModule string

definition parse_atom :: "string \<Rightarrow> mexpr option" where
  "parse_atom s =
     (if is_number s then Some (Num (number_value s))
      else if s = ''plt.plot()'' then Some Plot
      else if s = ''plt.figure()'' then Some NewFigure
      else if s = ''pd.DataFrame()'' then Some Frame
      else if s = ''sys.stdout.close()'' then Some CloseStdout
      else if s = ''sys.stdout.seek(0)'' then Some SeekStdout
      else if is_name s then Some (Name s)
      else map_option Str (quoted s))"

definition parse_sum :: "string \<Rightarrow> mexpr option" where
  "parse_sum s =
     (case those (map (\<lambda>t. parse_atom (strip t)) (split_on (\<lambda>c. c = CHR ''+'') s)) of
        None \<Rightarrow> None
      | Some [] \<Rightarrow> None
      | Some (a # as) \<Rightarrow> Some (foldl Add a as))"

definition parse_expr :: "string \<Rightarrow> mexpr option" where
  "parse_expr s =
     (if take 6 s = ''print('' \<and> s \<noteq> [] \<and> last s = CHR '')''
      then map_option Print (parse_sum (butlast (drop 6 s)))
      else parse_sum s)"

definition parse_stmt :: "string \<Rightarrow> (mexpr, mstmt) stmt option" where
  "parse_stmt s =
     (if take 6 s = ''raise '' \<and> is_name (strip (drop 6 s))
      then Some (Stmt (Raise (strip (drop 6 s))))
      else if take 7 s = ''import '' \<and> is_name (strip (drop 7 s))
      then Some (Stmt (Import (strip (drop 7 s))))
      else (let lhs = strip (takeWhile (\<lambda>c. c \<noteq> CHR ''='') s);
                rhs = dropWhile (\<lambda>c. c \<noteq> CHR ''='') s
            in if rhs \<noteq> [] \<and> is_name lhs
               then map_option (\<lambda>e. Stmt (Assign lhs e)) (parse_expr (strip (tl rhs)))
               else map_option Expr (parse_expr s)))"

definition mini_parse :: "json \<Rightarrow> raised + (mexpr, mstmt) stmt list" where
  "mini_parse code =
     (case code of
        JString s \<Rightarrow>
          (case those (map parse_stmt
                         (filter (\<lambda>t. t \<noteq> [])
                            (map strip (split_on (\<lambda>c. c = CHR '';'' \<or> c = CHR 0x0A) s)))) of
             None \<Rightarrow> Inl (Raised True ''SyntaxError: invalid syntax'')
           | Some body \<Rightarrow> Inr body)
      | _ \<Rightarrow> Inl (Raised True ''TypeError: expected str''))"

definition mini_str :: "mval \<Rightarrow> string" where
  "mini_str v =
     (case v of
        VNone \<Rightarrow> ''None''
      | VInt i \<Rightarrow> show_int i
      | VStr s \<Rightarrow> s
      | VEmptyList \<Rightarrow> ''[]''
      | VFrame \<Rightarrow> ''Empty DataFrame''
      | VFigure \<Rightarrow> ''Figure(640x480)''
      | VModule name \<Rightarrow> ''<module '' @ name @ ''>'')"

text \<open>\<^verbatim>\<open>plt.plot()\<close> draws into the current figure, giving it axes when it has none.\<close>

definition mini_plot :: "unit figure list \<Rightarrow> unit figure list" where
  "mini_plot fs =
     (case gcf fs of
        (fig, fs1) \<Rightarrow> if axes fig = [] then butlast fs1 @ [fig\<lparr>axes := [()]\<rparr>] else fs1)"

definition NameError :: "string \<Rightarrow> raised" where
  "NameError x = Raised True (''NameError: name '' @ [CHR 0x27] @ x @ [CHR 0x27] @ '' is not defined'')"

fun mini_eval :: "mexpr \<Rightarrow> (mval, unit) machine \<Rightarrow> (raised + mval) \<times> (mval, unit) machine" where
  "mini_eval (Num n) m = (Inr (VInt n), m)"
| "mini_eval (Str s) m = (Inr (VStr s), m)"
| "mini_eval (Name x) m =
     (case map_of (session_locals m) x of
        None \<Rightarrow> (Inl (NameError x), m)
      | Some v \<Rightarrow> (Inr v, m))"
| "mini_eval (Add a b) m =
     (case mini_eval a m of
        (Inl e, m1) \<Rightarrow> (Inl e, m1)
      | (Inr x, m1) \<Rightarrow>
          (case mini_eval b m1 of
             (Inl e, m2) \<Rightarrow> (Inl e, m2)
           | (Inr y, m2) \<Rightarrow>
               (case (x, y) of
                  (VInt i, VInt j) \<Rightarrow> (Inr (VInt (i + j)), m2)
                | (VStr s, VStr t) \<Rightarrow> (Inr (VStr (s @ t)), m2)
                | _ \<Rightarrow> (Inl (Raised True ''TypeError: unsupported operand type(s) for +''), m2))))"
| "mini_eval (Print a) m =
     (case mini_eval a m of
        (Inl e, m1) \<Rightarrow> (Inl e, m1)
      | (Inr v, m1) \<Rightarrow>
          (case StringIO_write (mini_str v @ [CHR 0x0A]) (buf m1) of
             None \<Rightarrow> (Inl closed_file_raised, m1)
           | Some b \<Rightarrow> (Inr VNone, m1\<lparr>buf := b\<rparr>)))"
| "mini_eval Plot m =
     (if map_of (session_locals m) ''plt'' = None then (Inl (NameError ''plt''), m)
      else (Inr VEmptyList, m\<lparr>figs := mini_plot (figs m)\<rparr>))"
| "mini_eval NewFigure m =
     (if map_of (session_locals m) ''plt'' = None then (Inl (NameError ''plt''), m)
      else (Inr VFigure, m\<lparr>figs := figs m @ [\<lparr>axes = []\<rparr>]\<rparr>))"
| "mini_eval Frame m =
     (if map_of (session_locals m) ''pd'' = None then (Inl (NameError ''pd''), m)
      else (Inr VFrame, m))"
| "mini_eval CloseStdout m =
     (if map_of (session_locals m) ''sys'' = None then (Inl (NameError ''sys''), m)
      else (Inr VNone, m\<lparr>buf := (buf m)\<lparr>sio_closed := True\<rparr>\<rparr>))"
| "mini_eval SeekStdout m =
     (if map_of (session_locals m) ''sys'' = None then (Inl (NameError ''sys''), m)
      else (case StringIO_seek 0 (buf m) of
              None \<Rightarrow> (Inl closed_file_raised, m)
            | Some b \<Rightarrow> (Inr (VInt 0), m\<lparr>buf := b\<rparr>)))"

definition mini_raise :: "string \<Rightarrow> raised" where
  "mini_raise c =
     (if c \<in> set [''SystemExit'', ''KeyboardInterrupt'', ''GeneratorExit'', ''BaseException'']
      then Raised False c
      else if c \<in> set [''Exception'', ''ValueError'', ''RuntimeError'']
      then Raised True c
      else NameError c)"

fun mini_exec ::
  "(mexpr, mstmt) stmt list \<Rightarrow> (mval, unit) machine \<Rightarrow> raised option \<times> (mval, unit) machine"
where
  "mini_exec [] m = (None, m)"
| "mini_exec (Expr e # rest) m =
     (case mini_eval e m of
        (Inl err, m1) \<Rightarrow> (Some err, m1)
      | (Inr v, m1) \<Rightarrow> mini_exec rest m1)"
| "mini_exec (Stmt (Assign x e) # rest) m =
     (case mini_eval e m of
        (Inl err, m1) \<Rightarrow> (Some err, m1)
      | (Inr v, m1) \<Rightarrow>
          mini_exec rest (m1\<lparr>session_locals := AList.update x v (session_locals m1)\<rparr>))"
| "mini_exec (Stmt (Raise c) # rest) m = (Some (mini_raise c), m)"
| "mini_exec (Stmt (Import name) # rest) m =
     mini_exec rest
       (m\<lparr>session_locals := AList.update name (VModule name) (session_locals m)\<rparr>)"

definition mini_item :: "string \<Rightarrow> (string \<times> json) option" where
  "mini_item s =
     (let k = strip (takeWhile (\<lambda>c. c \<noteq> CHR '':'') s);
          v = strip (drop 1 (dropWhile (\<lambda>c. c \<noteq> CHR '':'') s))
      in case quoted k of
           None \<Rightarrow> None
         | Some key \<Rightarrow>
             (if is_number v then Some (key, JInt (number_value v))
              else if v = ''true'' then Some (key, JBool True)
              else if v = ''false'' then Some (key, JBool False)
              else if v = ''null'' then Some (key, JNull)
              else if v = ''[]'' then Some (key, JArray [])
              else map_option (\<lambda>t. (key, JString t)) (quoted v)))"

definition mini_loads :: "string \<Rightarrow> raised + json" where
  "mini_loads s =
     (let t = strip s
      in if 2 \<le> length t \<and> hd t = CHR ''{'' \<and> last t = CHR ''}''
         then (case those (map mini_item
                             (filter (\<lambda>i. strip i \<noteq> [])
                                (split_on (\<lambda>c. c = CHR '','') (butlast (tl t))))) of
                 None \<Rightarrow> Inl (Raised True ''json.decoder.JSONDecodeError'')
               | Some items \<Rightarrow> Inr (JObject (foldl (\<lambda>d (k, v). AList.update k v d) [] items)))
         else Inl (Raised True ''json.decoder.JSONDecodeError''))"

text \<open>The names of the namespace that start with the text of the cell.\<close>

definition mini_complete :: "mval namespace \<Rightarrow> json \<Rightarrow> json \<Rightarrow> json \<Rightarrow> raised + string list" where
  "mini_complete ns code line column =
     (case code of
        JString s \<Rightarrow> Inr (filter (\<lambda>k. take (length s) k = s) (map fst ns))
      | _ \<Rightarrow> Inl (Raised True ''TypeError''))"

definition mini :: "(mval, unit, mexpr, mstmt) python" where
  \<open>mini =
     \<lparr>json_loads = mini_loads,
      ast_parse = mini_parse,
      py_exec = mini_exec,
      py_eval = mini_eval,
      isinstance_DataFrame = (\<lambda>v. v = VFrame),
      is_None = (\<lambda>v. v = VNone),
      to_html = (\<lambda>v m. (Inr ''<table border="1" class="dataframe"></table>'', m)),
      py_str = (\<lambda>v m. (Inr (mini_str v), m)),
      savefig = (\<lambda>fig. Inr ''PNG''),
      jedi_complete = mini_complete,
      plt_module = VModule ''matplotlib.pyplot'',
      pd_module = VModule ''pandas''\<rparr>\<close>

text \<open>The server after a first client has connected as session \<^verbatim>\<open>s1\<close> on channel 1.\<close>

definition one_session :: "(mval, unit) state" where
  "one_session = connect mini 1 ''s1'' initial_state"

text \<open>The same after a second client has connected as session \<^verbatim>\<open>s2\<close> on channel 2.\<close>

definition two_sessions :: "(mval, unit) state" where
  "two_sessions = connect mini 2 ''s2'' one_session"

section \<open>Properties\<close>

subsection \<open>What each method leaves unchanged\<close>

lemma store_machine_fields:
  "sessions (store_machine sid env m st) = (sessions st)(sid \<mapsto> env\<lparr>locals := session_locals m\<rparr>)"
  "global_settings (store_machine sid env m st) = global_settings st"
  "pyplot (store_machine sid env m st) = figs m"
  "wire (store_machine sid env m st) = wire st"
  by (simp_all add: store_machine_def)

lemma send_json_fields:
  "sessions (send_json ws msg st) = sessions st"
  "global_settings (send_json ws msg st) = global_settings st"
  "pyplot (send_json ws msg st) = pyplot st"
  "wire (send_json ws msg st) = wire st @ [(ws, SendJson msg)]"
  by (simp_all add: send_json_def)

lemma execute_unknown:
  "sessions st session_id = None \<Longrightarrow> execute P session_id code st = (Inr SESSION_EXPIRED, st)"
  by (simp add: execute_def)

lemma execute_known:
  "sessions st session_id = Some env \<Longrightarrow>
   execute P session_id code st =
     (case execute_try P code (cell_machine env st) of
        (None, m) \<Rightarrow>
          (case StringIO_getvalue (buf m) of
             Some output \<Rightarrow> (Inr output, store_machine session_id env m st)
           | None \<Rightarrow> (Inl (ValueError closed_file), store_machine session_id env m st))
      | (Some e, m) \<Rightarrow>
          if is_Exception e then
            (case execute_except (format_exc e) (buf m) of
               Some output \<Rightarrow> (Inr output, store_machine session_id env m st)
             | None \<Rightarrow> (Inl (ValueError closed_file), store_machine session_id env m st))
          else (Inl (Uncaught e), store_machine session_id env m st))"
  by (simp add: execute_def)

lemma execute_state:
  "sessions st session_id = Some env \<Longrightarrow>
   snd (execute P session_id code st) =
     store_machine session_id env (snd (execute_try P code (cell_machine env st))) st"
  by (simp add: execute_known split: prod.splits option.splits)

lemma execute_global_settings:
  "global_settings (snd (execute P session_id code st)) = global_settings st"
  by (cases "sessions st session_id")
     (simp_all add: execute_unknown execute_state store_machine_fields)

lemma execute_wire: "wire (snd (execute P session_id code st)) = wire st"
  by (cases "sessions st session_id")
     (simp_all add: execute_unknown execute_state store_machine_fields)

lemma execute_sessions_other:
  "sid' \<noteq> session_id \<Longrightarrow> sessions (snd (execute P session_id code st)) sid' = sessions st sid'"
  by (cases "sessions st session_id")
     (simp_all add: execute_unknown execute_state store_machine_fields)




lemma handle_get_completions_settings:
  "global_settings (snd (handle_get_completions P ws session_id data st)) = global_settings st"
  by (simp add: handle_get_completions_def send_json_fields split: sum.splits)

lemma handle_run_code_settings:
  "global_settings (snd (handle_run_code P ws session_id data st)) = global_settings st"
proof (cases "map_of data ''code''")
  case None
  then show ?thesis by (simp add: handle_run_code_def)
next
  case (Some code)
  obtain r st1 where ex: "execute P session_id code st = (r, st1)"
    by (cases "execute P session_id code st")
  have "global_settings st1 = global_settings st"
    using execute_global_settings [of P session_id code st] ex by simp
  then show ?thesis
    using Some ex
    by (simp add: handle_run_code_def send_json_fields split: sum.splits option.splits)
qed

lemma handle_apply_design_settings:
  "global_settings (snd (handle_apply_design data st)) = global_settings st"
  by (simp add: handle_apply_design_def send_json_fields split: sum.splits option.splits)

lemma handle_message_settings:
  "global_settings (snd (handle_message P ws session_id message st)) = global_settings st"
  by (simp add: handle_message_def Let_def handle_run_code_settings
        handle_get_completions_settings handle_apply_design_settings
      split: sum.splits json.splits)

lemma handle_message_object:
  "json_loads P message = Inr (JObject data) \<Longrightarrow>
   handle_message P ws session_id message st =
     (if dict_get data ''type'' = JString ''run_code'' then handle_run_code P ws session_id data st
      else if dict_get data ''type'' = JString ''get_completions'' then
        handle_get_completions P ws session_id data st
      else if dict_get data ''type'' = JString ''apply_design'' then handle_apply_design data st
      else (None, st))"
  by (simp add: handle_message_def Let_def)

lemma handle_apply_design_delivered:
  "dict_get data ''session_id'' = JString target \<Longrightarrow> sessions st target = Some env \<Longrightarrow>
   websocket env = Some target_ws \<Longrightarrow> map_of data ''html'' = Some html \<Longrightarrow>
   handle_apply_design data st = (None, send_json target_ws (design_applied_message html) st)"
  by (simp add: handle_apply_design_def target_websocket_def)

lemma handle_apply_design_unknown:
  "dict_get data ''session_id'' = JString target \<Longrightarrow> sessions st target = None \<Longrightarrow>
   handle_apply_design data st = (None, st)"
  by (simp add: handle_apply_design_def target_websocket_def)

lemma handle_apply_design_no_channel:
  "dict_get data ''session_id'' = JString target \<Longrightarrow> sessions st target = Some env \<Longrightarrow>
   websocket env = None \<Longrightarrow> handle_apply_design data st = (None, st)"
  by (simp add: handle_apply_design_def target_websocket_def)

lemma handle_apply_design_no_target:
  "dict_get data ''session_id'' = JNull \<or> dict_get data ''session_id'' = JBool b
     \<or> dict_get data ''session_id'' = JInt i \<or> dict_get data ''session_id'' = JFloat r \<Longrightarrow>
   handle_apply_design data st = (None, st)"
  by (auto simp: handle_apply_design_def target_websocket_def)

lemma disconnect_removes: "sessions (disconnect session_id st) session_id = None"
  by (simp add: disconnect_def split: option.splits)

lemma execute_after_disconnect:
  "execute P session_id code (disconnect session_id st) =
     (Inr SESSION_EXPIRED, disconnect session_id st)"
  by (simp add: execute_unknown disconnect_removes)

subsection \<open>The state with one session\<close>

lemma one_session_s1:
  "sessions one_session ''s1'' =
     Some \<lparr>locals = [(''plt'', VModule ''matplotlib.pyplot''), (''pd'', VModule ''pandas'')],
           websocket = Some 1\<rparr>"
  by (simp add: one_session_def connect_def initial_state_def mini_def)

lemma one_session_other: "sid \<noteq> ''s1'' \<Longrightarrow> sessions one_session sid = None"
  by (simp add: one_session_def connect_def initial_state_def)

lemma one_session_fields:
  "global_settings one_session = \<lparr>enable_autocomplete = True\<rparr>"
  "pyplot one_session = []"
  "wire one_session = [(1, Accept)]"
  by (simp_all add: one_session_def connect_def initial_state_def global_settings_init_def)

subsection \<open>Unknown sessions\<close>



subsection \<open>Messages of an unknown type\<close>

text \<open>
  Claim C10. A message that decodes to a JSON object whose \<^verbatim>\<open>type\<close> is none of
  \<^verbatim>\<open>run_code\<close>, \<^verbatim>\<open>get_completions\<close> and \<^verbatim>\<open>apply_design\<close> (a missing
  \<^verbatim>\<open>type\<close> reads as \<^verbatim>\<open>None\<close>) is handled without an exception and leaves the
  whole state as it was: no frame is sent, and the registry, the namespaces and the flag
  are unchanged.
\<close>

theorem unknown_message_type_ignored:
  assumes "json_loads P message = Inr (JObject data)"
    and "dict_get data ''type'' \<noteq> JString ''run_code''"
    and "dict_get data ''type'' \<noteq> JString ''get_completions''"
    and "dict_get data ''type'' \<noteq> JString ''apply_design''"
  shows "handle_message P ws session_id message st = (None, st)"
  using assms by (simp add: handle_message_object)

theorem unknown_message_type_ignored_witness:
  \<open>json_loads mini ''{"type": "ping", "cell_id": 3}'' =
     Inr (JObject [(''type'', JString ''ping''), (''cell_id'', JInt 3)])
   \<and> dict_get [(''type'', JString ''ping''), (''cell_id'', JInt 3)] ''type'' = JString ''ping''
   \<and> handle_message mini 1 ''s1'' ''{"type": "ping", "cell_id": 3}'' one_session = (None, one_session)
   \<and> json_loads mini ''{"cell_id": 3}'' = Inr (JObject [(''cell_id'', JInt 3)])
   \<and> dict_get [(''cell_id'', JInt 3)] ''type'' = JNull
   \<and> handle_message mini 1 ''s1'' ''{"cell_id": 3}'' one_session = (None, one_session)\<close>
proof -
  have l1: \<open>json_loads mini ''{"type": "ping", "cell_id": 3}'' =
     Inr (JObject [(''type'', JString ''ping''), (''cell_id'', JInt 3)])\<close>
    by code_simp
  have t1: "dict_get [(''type'', JString ''ping''), (''cell_id'', JInt 3)] ''type'' = JString ''ping''"
    by (simp add: dict_get_def)
  have l2: \<open>json_loads mini ''{"cell_id": 3}'' = Inr (JObject [(''cell_id'', JInt 3)])\<close>
    by code_simp
  have t2: "dict_get [(''cell_id'', JInt 3)] ''type'' = JNull"
    by (simp add: dict_get_def)
  show ?thesis
    using l1 t1 l2 t2
      unknown_message_type_ignored [OF l1, where ws = 1 and session_id = "''s1''" and st = one_session]
      unknown_message_type_ignored [OF l2, where ws = 1 and session_id = "''s1''" and st = one_session]
    by simp
qed

subsection \<open>Connecting again under a known session id\<close>

lemma connect_known:
  "sessions st session_id = Some env \<Longrightarrow>
   connect P ws session_id st = st\<lparr>wire := wire st @ [(ws, Accept)]\<rparr>"
  by (simp add: connect_def)

lemma connect_new:
  "sessions st session_id = None \<Longrightarrow>
   sessions (connect P ws session_id st) session_id =
     Some \<lparr>locals = [(''plt'', plt_module P), (''pd'', pd_module P)], websocket = Some ws\<rparr>"
  by (simp add: connect_def)

text \<open>
  Claim C9. When a channel connects with a session id that is already registered,
  \<^verbatim>\<open>connect\<close> accepts the channel and leaves the registry as it was: the entry keeps
  its namespace and the channel stored at the first connect. A later
  \<^verbatim>\<open>apply_design\<close> for that id is sent to the stored channel, not to the new one.
\<close>

theorem reconnect_keeps_entry:
  assumes "sessions st session_id = Some env"
  shows "connect P new_ws session_id st = st\<lparr>wire := wire st @ [(new_ws, Accept)]\<rparr>
       \<and> sessions (connect P new_ws session_id st) = sessions st
       \<and> (json_loads P message = Inr (JObject data)
            \<longrightarrow> dict_get data ''type'' = JString ''apply_design''
            \<longrightarrow> dict_get data ''session_id'' = JString session_id
            \<longrightarrow> map_of data ''html'' = Some html
            \<longrightarrow> websocket env = Some first_ws
          \<longrightarrow> handle_message P sender_ws sender_id message (connect P new_ws session_id st) =
                (None, send_json first_ws (design_applied_message html) (connect P new_ws session_id st)))"
proof -
  have c: "connect P new_ws session_id st = st\<lparr>wire := wire st @ [(new_ws, Accept)]\<rparr>"
    using assms by (rule connect_known)
  have s: "sessions (connect P new_ws session_id st) = sessions st"
    by (simp add: c)
  have "handle_message P sender_ws sender_id message (connect P new_ws session_id st) =
          (None, send_json first_ws (design_applied_message html) (connect P new_ws session_id st))"
    if "json_loads P message = Inr (JObject data)"
      and "dict_get data ''type'' = JString ''apply_design''"
      and "dict_get data ''session_id'' = JString session_id"
      and "map_of data ''html'' = Some html"
      and "websocket env = Some first_ws"
  proof -
    have "sessions (connect P new_ws session_id st) session_id = Some env"
      using assms s by simp
    then have "handle_apply_design data (connect P new_ws session_id st) =
                 (None, send_json first_ws (design_applied_message html) (connect P new_ws session_id st))"
      using that by (intro handle_apply_design_delivered)
    then show ?thesis
      using that by (simp add: handle_message_object)
  qed
  then show ?thesis using c s by blast
qed

theorem reconnect_keeps_entry_witness:
  \<open>sessions one_session ''s1'' =
     Some \<lparr>locals = [(''plt'', VModule ''matplotlib.pyplot''), (''pd'', VModule ''pandas'')],
           websocket = Some 1\<rparr>
   \<and> connect mini 7 ''s1'' one_session = one_session\<lparr>wire := wire one_session @ [(7, Accept)]\<rparr>
   \<and> sessions (connect mini 7 ''s1'' one_session) = sessions one_session
   \<and> handle_message mini 2 ''s2'' ''{"type": "apply_design", "session_id": "s1", "html": "<b>hi</b>"}''
         (connect mini 7 ''s1'' one_session) =
       (None, send_json 1 (design_applied_message (JString ''<b>hi</b>''))
                (connect mini 7 ''s1'' one_session))\<close>
proof -
  have l1: \<open>json_loads mini ''{"type": "apply_design", "session_id": "s1", "html": "<b>hi</b>"}'' =
     Inr (JObject [(''type'', JString ''apply_design''), (''session_id'', JString ''s1''),
                   (''html'', JString ''<b>hi</b>'')])\<close>
    by code_simp
  show ?thesis
    using l1 one_session_s1
      reconnect_keeps_entry [OF one_session_s1, where P = mini and new_ws = 7
        and message = \<open>''{"type": "apply_design", "session_id": "s1", "html": "<b>hi</b>"}''\<close>
        and data = "[(''type'', JString ''apply_design''), (''session_id'', JString ''s1''),
                   (''html'', JString ''<b>hi</b>'')]"
        and html = "JString ''<b>hi</b>''" and first_ws = 1 and sender_ws = 2 and sender_id = "''s2''"]
    by (auto simp: dict_get_def)
qed

subsection \<open>Forwarding a design\<close>

lemma handle_apply_design_no_html:
  "dict_get data ''session_id'' = JString target \<Longrightarrow> sessions st target = Some env \<Longrightarrow>
   websocket env = Some target_ws \<Longrightarrow> map_of data ''html'' = None \<Longrightarrow>
   handle_apply_design data st = (Some (KeyError ''html''), st)"
  by (simp add: handle_apply_design_def target_websocket_def)

lemma handle_apply_design_unhashable:
  "dict_get data ''session_id'' = JArray xs \<Longrightarrow>
   handle_apply_design data st = (Some (TypeError ''unhashable type: list''), st)"
  "dict_get data ''session_id'' = JObject kvs \<Longrightarrow>
   handle_apply_design data st = (Some (TypeError ''unhashable type: dict''), st)"
  by (simp_all add: handle_apply_design_def target_websocket_def)

text \<open>
  Claim C6, amended. An \<^verbatim>\<open>apply_design\<close> message is handled according to its
  \<^verbatim>\<open>session_id\<close> field and the registry. If the field is a string that names a
  registered session with a channel and the message has an \<^verbatim>\<open>html\<close> field, exactly
  one frame \<^verbatim>\<open>{"type": "design_applied", "html": html}\<close> with the payload unchanged is
  sent to that channel, and nothing else changes. If the target is unknown, has no
  channel, or the field is absent, null, a boolean or a number, nothing is sent and the
  state is unchanged. The remaining messages raise and send nothing: a registered target
  with a channel and no \<^verbatim>\<open>html\<close> field raises \<^verbatim>\<open>KeyError\<close> at
  \<^verbatim>\<open>data['html']\<close>, and a list or an object as \<^verbatim>\<open>session_id\<close> raises
  \<^verbatim>\<open>TypeError\<close> at the lookup in \<^verbatim>\<open>self.sessions\<close>.
\<close>

theorem apply_design_forwarded_or_dropped:
  assumes "json_loads P message = Inr (JObject data)"
    and "dict_get data ''type'' = JString ''apply_design''"
  shows "(dict_get data ''session_id'' = JString target \<longrightarrow> sessions st target = Some env
            \<longrightarrow> websocket env = Some target_ws \<longrightarrow> map_of data ''html'' = Some html
          \<longrightarrow> handle_message P ws session_id message st =
                (None, st\<lparr>wire := wire st @
                   [(target_ws, SendJson (JObject [(''type'', JString ''design_applied''),
                                                    (''html'', html)]))]\<rparr>))
       \<and> (dict_get data ''session_id'' = JString target \<longrightarrow> sessions st target = None
          \<longrightarrow> handle_message P ws session_id message st = (None, st))
       \<and> (dict_get data ''session_id'' = JString target \<longrightarrow> sessions st target = Some env
            \<longrightarrow> websocket env = None
          \<longrightarrow> handle_message P ws session_id message st = (None, st))
       \<and> (dict_get data ''session_id'' = JNull \<or> dict_get data ''session_id'' = JBool b
            \<or> dict_get data ''session_id'' = JInt i \<or> dict_get data ''session_id'' = JFloat r
          \<longrightarrow> handle_message P ws session_id message st = (None, st))
       \<and> (dict_get data ''session_id'' = JString target \<longrightarrow> sessions st target = Some env
            \<longrightarrow> websocket env = Some target_ws \<longrightarrow> map_of data ''html'' = None
          \<longrightarrow> handle_message P ws session_id message st = (Some (KeyError ''html''), st))
       \<and> (dict_get data ''session_id'' = JArray xs
          \<longrightarrow> handle_message P ws session_id message st =
                (Some (TypeError ''unhashable type: list''), st))
       \<and> (dict_get data ''session_id'' = JObject kvs
          \<longrightarrow> handle_message P ws session_id message st =
                (Some (TypeError ''unhashable type: dict''), st))"
proof -
  have hm: "handle_message P ws session_id message st = handle_apply_design data st"
    using assms by (simp add: handle_message_object)
  have a: "handle_apply_design data st =
             (None, st\<lparr>wire := wire st @
                [(target_ws, SendJson (JObject [(''type'', JString ''design_applied''),
                                                 (''html'', html)]))]\<rparr>)"
    if "dict_get data ''session_id'' = JString target" "sessions st target = Some env"
      "websocket env = Some target_ws" "map_of data ''html'' = Some html"
    using that
    by (simp add: handle_apply_design_delivered send_json_def design_applied_message_def)
  have b: "handle_apply_design data st = (None, st)"
    if "dict_get data ''session_id'' = JString target" "sessions st target = None"
    using that by (rule handle_apply_design_unknown)
  have c: "handle_apply_design data st = (None, st)"
    if "dict_get data ''session_id'' = JString target" "sessions st target = Some env"
      "websocket env = None"
    using that by (rule handle_apply_design_no_channel)
  have d: "handle_apply_design data st = (None, st)"
    if "dict_get data ''session_id'' = JNull \<or> dict_get data ''session_id'' = JBool b
          \<or> dict_get data ''session_id'' = JInt i \<or> dict_get data ''session_id'' = JFloat r"
    using that by (rule handle_apply_design_no_target)
  have e: "handle_apply_design data st = (Some (KeyError ''html''), st)"
    if "dict_get data ''session_id'' = JString target" "sessions st target = Some env"
      "websocket env = Some target_ws" "map_of data ''html'' = None"
    using that by (rule handle_apply_design_no_html)
  have f: "handle_apply_design data st = (Some (TypeError ''unhashable type: list''), st)"
    if "dict_get data ''session_id'' = JArray xs"
    using that by (rule handle_apply_design_unhashable)
  have g: "handle_apply_design data st = (Some (TypeError ''unhashable type: dict''), st)"
    if "dict_get data ''session_id'' = JObject kvs"
    using that by (rule handle_apply_design_unhashable)
  show ?thesis
    unfolding hm using a b c d e f g by blast
qed

theorem apply_design_forwarded_or_dropped_witness:
  \<open>json_loads mini ''{"type": "apply_design", "session_id": "s1", "html": "<b>hi</b>"}'' =
     Inr (JObject [(''type'', JString ''apply_design''), (''session_id'', JString ''s1''),
                   (''html'', JString ''<b>hi</b>'')])
   \<and> handle_message mini 2 ''s2'' ''{"type": "apply_design", "session_id": "s1", "html": "<b>hi</b>"}''
         one_session =
       (None, one_session\<lparr>wire := [(1, Accept),
          (1, SendJson (JObject [(''type'', JString ''design_applied''),
                                 (''html'', JString ''<b>hi</b>'')]))]\<rparr>)
   \<and> json_loads mini ''{"type": "apply_design", "session_id": "s9", "html": "<b>hi</b>"}'' =
     Inr (JObject [(''type'', JString ''apply_design''), (''session_id'', JString ''s9''),
                   (''html'', JString ''<b>hi</b>'')])
   \<and> handle_message mini 2 ''s2'' ''{"type": "apply_design", "session_id": "s9", "html": "<b>hi</b>"}''
         one_session = (None, one_session)
   \<and> handle_message mini 2 ''s2'' ''{"type": "apply_design", "session_id": "s1", "html": "<b>hi</b>"}''
         (one_session\<lparr>sessions := (sessions one_session)(''s1'' \<mapsto> \<lparr>locals = [], websocket = None\<rparr>)\<rparr>) =
       (None, one_session\<lparr>sessions := (sessions one_session)(''s1'' \<mapsto> \<lparr>locals = [], websocket = None\<rparr>)\<rparr>)
   \<and> json_loads mini ''{"type": "apply_design", "html": "<b>hi</b>"}'' =
     Inr (JObject [(''type'', JString ''apply_design''), (''html'', JString ''<b>hi</b>'')])
   \<and> handle_message mini 2 ''s2'' ''{"type": "apply_design", "html": "<b>hi</b>"}'' one_session =
       (None, one_session)
   \<and> json_loads mini ''{"type": "apply_design", "session_id": 7, "html": "<b>hi</b>"}'' =
     Inr (JObject [(''type'', JString ''apply_design''), (''session_id'', JInt 7),
                   (''html'', JString ''<b>hi</b>'')])
   \<and> handle_message mini 2 ''s2'' ''{"type": "apply_design", "session_id": 7, "html": "<b>hi</b>"}''
         one_session = (None, one_session)
   \<and> json_loads mini ''{"type": "apply_design", "session_id": "s1"}'' =
     Inr (JObject [(''type'', JString ''apply_design''), (''session_id'', JString ''s1'')])
   \<and> handle_message mini 2 ''s2'' ''{"type": "apply_design", "session_id": "s1"}'' one_session =
       (Some (KeyError ''html''), one_session)
   \<and> json_loads mini ''{"type": "apply_design", "session_id": [], "html": "<b>hi</b>"}'' =
     Inr (JObject [(''type'', JString ''apply_design''), (''session_id'', JArray []),
                   (''html'', JString ''<b>hi</b>'')])
   \<and> handle_message mini 2 ''s2'' ''{"type": "apply_design", "session_id": [], "html": "<b>hi</b>"}''
         one_session = (Some (TypeError ''unhashable type: list''), one_session)\<close>
proof -
  let ?env = "\<lparr>locals = [(''plt'', VModule ''matplotlib.pyplot''), (''pd'', VModule ''pandas'')],
                websocket = Some 1\<rparr>"
  let ?off = "one_session\<lparr>sessions := (sessions one_session)(''s1'' \<mapsto> \<lparr>locals = [], websocket = None\<rparr>)\<rparr>"
  have la: \<open>json_loads mini ''{"type": "apply_design", "session_id": "s1", "html": "<b>hi</b>"}'' =
     Inr (JObject [(''type'', JString ''apply_design''), (''session_id'', JString ''s1''),
                   (''html'', JString ''<b>hi</b>'')])\<close>
    by code_simp
  have lb: \<open>json_loads mini ''{"type": "apply_design", "session_id": "s9", "html": "<b>hi</b>"}'' =
     Inr (JObject [(''type'', JString ''apply_design''), (''session_id'', JString ''s9''),
                   (''html'', JString ''<b>hi</b>'')])\<close>
    by code_simp
  have lc: \<open>json_loads mini ''{"type": "apply_design", "html": "<b>hi</b>"}'' =
     Inr (JObject [(''type'', JString ''apply_design''), (''html'', JString ''<b>hi</b>'')])\<close>
    by code_simp
  have ld: \<open>json_loads mini ''{"type": "apply_design", "session_id": 7, "html": "<b>hi</b>"}'' =
     Inr (JObject [(''type'', JString ''apply_design''), (''session_id'', JInt 7),
                   (''html'', JString ''<b>hi</b>'')])\<close>
    by code_simp
  have le: \<open>json_loads mini ''{"type": "apply_design", "session_id": "s1"}'' =
     Inr (JObject [(''type'', JString ''apply_design''), (''session_id'', JString ''s1'')])\<close>
    by code_simp
  have lf: \<open>json_loads mini ''{"type": "apply_design", "session_id": [], "html": "<b>hi</b>"}'' =
     Inr (JObject [(''type'', JString ''apply_design''), (''session_id'', JArray []),
                   (''html'', JString ''<b>hi</b>'')])\<close>
    by code_simp
  have ra: \<open>handle_message mini 2 ''s2''
        ''{"type": "apply_design", "session_id": "s1", "html": "<b>hi</b>"}'' one_session =
       (None, one_session\<lparr>wire := [(1, Accept),
          (1, SendJson (JObject [(''type'', JString ''design_applied''),
                                 (''html'', JString ''<b>hi</b>'')]))]\<rparr>)\<close>
    using apply_design_forwarded_or_dropped [OF la, where ws = 2 and session_id = "''s2''"
        and st = one_session and target = "''s1''" and target_ws = 1
        and html = "JString ''<b>hi</b>''" and env = ?env]
    by (simp add: dict_get_def one_session_s1 one_session_fields)
  have rb: \<open>handle_message mini 2 ''s2''
        ''{"type": "apply_design", "session_id": "s9", "html": "<b>hi</b>"}'' one_session =
       (None, one_session)\<close>
    using apply_design_forwarded_or_dropped [OF lb, where ws = 2 and session_id = "''s2''"
        and st = one_session and target = "''s9''"]
    by (simp add: dict_get_def one_session_other)
  have rc: \<open>handle_message mini 2 ''s2''
        ''{"type": "apply_design", "session_id": "s1", "html": "<b>hi</b>"}'' ?off = (None, ?off)\<close>
    using apply_design_forwarded_or_dropped [OF la, where ws = 2 and session_id = "''s2''"
        and st = ?off and target = "''s1''" and env = "\<lparr>locals = [], websocket = None\<rparr>"]
    by (simp add: dict_get_def)
  have rd: \<open>handle_message mini 2 ''s2'' ''{"type": "apply_design", "html": "<b>hi</b>"}''
        one_session = (None, one_session)\<close>
    using apply_design_forwarded_or_dropped [OF lc, where ws = 2 and session_id = "''s2''"
        and st = one_session]
    by (simp add: dict_get_def)
  have re: \<open>handle_message mini 2 ''s2''
        ''{"type": "apply_design", "session_id": 7, "html": "<b>hi</b>"}'' one_session =
       (None, one_session)\<close>
    using apply_design_forwarded_or_dropped [OF ld, where ws = 2 and session_id = "''s2''"
        and st = one_session and i = 7]
    by (simp add: dict_get_def)
  have rf: \<open>handle_message mini 2 ''s2'' ''{"type": "apply_design", "session_id": "s1"}''
        one_session = (Some (KeyError ''html''), one_session)\<close>
    using apply_design_forwarded_or_dropped [OF le, where ws = 2 and session_id = "''s2''"
        and st = one_session and target = "''s1''" and target_ws = 1 and env = ?env]
    by (simp add: dict_get_def one_session_s1)
  have rg: \<open>handle_message mini 2 ''s2''
        ''{"type": "apply_design", "session_id": [], "html": "<b>hi</b>"}'' one_session =
       (Some (TypeError ''unhashable type: list''), one_session)\<close>
    using apply_design_forwarded_or_dropped [OF lf, where ws = 2 and session_id = "''s2''"
        and st = one_session and xs = "[]"]
    by (simp add: dict_get_def)
  show ?thesis
    using la lb lc ld le lf ra rb rc rd re rf rg by simp
qed

text \<open>
  The claim as stated, for every \<^verbatim>\<open>apply_design\<close> message, fails on two messages.
  The session \<^verbatim>\<open>s1\<close> is registered and has a channel, and the message without
  \<^verbatim>\<open>html\<close> sends no \<^verbatim>\<open>design_applied\<close> frame and raises
  \<^verbatim>\<open>KeyError\<close>; the message whose \<^verbatim>\<open>session_id\<close> is a list names no
  registered session and is not dropped silently but raises \<^verbatim>\<open>TypeError\<close>.
\<close>

theorem apply_design_raises_counterexample:
  \<open>sessions one_session ''s1'' =
     Some \<lparr>locals = [(''plt'', VModule ''matplotlib.pyplot''), (''pd'', VModule ''pandas'')],
           websocket = Some 1\<rparr>
   \<and> json_loads mini ''{"type": "apply_design", "session_id": "s1"}'' =
     Inr (JObject [(''type'', JString ''apply_design''), (''session_id'', JString ''s1'')])
   \<and> handle_message mini 2 ''s2'' ''{"type": "apply_design", "session_id": "s1"}'' one_session =
       (Some (KeyError ''html''), one_session)
   \<and> json_loads mini ''{"type": "apply_design", "session_id": [], "html": "<b>hi</b>"}'' =
     Inr (JObject [(''type'', JString ''apply_design''), (''session_id'', JArray []),
                   (''html'', JString ''<b>hi</b>'')])
   \<and> handle_message mini 2 ''s2'' ''{"type": "apply_design", "session_id": [], "html": "<b>hi</b>"}''
         one_session = (Some (TypeError ''unhashable type: list''), one_session)\<close>
proof -
  have le: \<open>json_loads mini ''{"type": "apply_design", "session_id": "s1"}'' =
     Inr (JObject [(''type'', JString ''apply_design''), (''session_id'', JString ''s1'')])\<close>
    by code_simp
  have lf: \<open>json_loads mini ''{"type": "apply_design", "session_id": [], "html": "<b>hi</b>"}'' =
     Inr (JObject [(''type'', JString ''apply_design''), (''session_id'', JArray []),
                   (''html'', JString ''<b>hi</b>'')])\<close>
    by code_simp
  have rf: \<open>handle_message mini 2 ''s2'' ''{"type": "apply_design", "session_id": "s1"}''
        one_session = (Some (KeyError ''html''), one_session)\<close>
    by (simp add: handle_message_object [OF le] dict_get_def handle_apply_design_def
          target_websocket_def one_session_s1)
  have rg: \<open>handle_message mini 2 ''s2''
        ''{"type": "apply_design", "session_id": [], "html": "<b>hi</b>"}'' one_session =
       (Some (TypeError ''unhashable type: list''), one_session)\<close>
    by (simp add: handle_message_object [OF lf] dict_get_def handle_apply_design_def
          target_websocket_def)
  show ?thesis
    using le lf rf rg one_session_s1 by simp
qed

subsection \<open>The autocomplete flag\<close>

lemma handle_get_completions_disabled:
  "\<not> enable_autocomplete (global_settings st) \<Longrightarrow>
   handle_get_completions P ws session_id data st =
     (None, send_json ws (completions_message (dict_get data ''request_id'') []) st)"
  by (simp add: handle_get_completions_def)

lemma handle_get_completions_enabled:
  "enable_autocomplete (global_settings st) \<Longrightarrow> map_of data ''code'' = Some code \<Longrightarrow>
   map_of data ''line'' = Some line \<Longrightarrow> map_of data ''column'' = Some column \<Longrightarrow>
   get_completions P session_id code line column st = Inr names \<Longrightarrow>
   handle_get_completions P ws session_id data st =
     (None, send_json ws (completions_message (dict_get data ''request_id'') names) st)"
  by (simp add: handle_get_completions_def)

lemma update_settings_teacher:
  "map_of body ''enable_autocomplete'' = Some v \<Longrightarrow>
   update_settings (Some ''teacher'') body st =
     (200, st\<lparr>global_settings := (global_settings st)\<lparr>enable_autocomplete := py_bool v\<rparr>\<rparr>)"
  by (simp add: update_settings_def)

lemma send_completions:
  "send_json ws (completions_message request_id names) st =
     st\<lparr>wire := wire st @
        [(ws, SendJson (JObject [(''type'', JString ''completions''),
                                 (''request_id'', request_id),
                                 (''completions'', JArray (map JString names))]))]\<rparr>"
  by (simp add: send_json_def completions_message_def)

text \<open>
  Claim C5. The flag \<^verbatim>\<open>enable_autocomplete\<close> is true in the settings the module
  starts with. For a \<^verbatim>\<open>get_completions\<close> message handled in a state where the flag
  is false, the one frame sent is
  \<^verbatim>\<open>{"type": "completions", "request_id": ..., "completions": []}\<close> on the channel of
  the request, under the message's \<^verbatim>\<open>request_id\<close>, and the result is the same
  whatever the completion provider is: it is not called. Where the flag is true the frame
  carries the names \<^verbatim>\<open>get_completions\<close> returns, in their order. The handler reads
  the flag from the state it runs in and never writes it, so a change made by
  \<^verbatim>\<open>update_settings\<close> decides every request handled after it.
\<close>

theorem autocomplete_flag_gates_completions:
  assumes "json_loads P message = Inr (JObject data)"
    and "dict_get data ''type'' = JString ''get_completions''"
  shows "enable_autocomplete global_settings_init
       \<and> (\<not> enable_autocomplete (global_settings st)
          \<longrightarrow> handle_message P ws session_id message st =
                (None, st\<lparr>wire := wire st @
                   [(ws, SendJson (JObject [(''type'', JString ''completions''),
                                            (''request_id'', dict_get data ''request_id''),
                                            (''completions'', JArray [])]))]\<rparr>)
            \<and> handle_message (P\<lparr>jedi_complete := provider\<rparr>) ws session_id message st =
                handle_message P ws session_id message st)
       \<and> (enable_autocomplete (global_settings st) \<longrightarrow> map_of data ''code'' = Some code
            \<longrightarrow> map_of data ''line'' = Some line \<longrightarrow> map_of data ''column'' = Some column
            \<longrightarrow> get_completions P session_id code line column st = Inr names
          \<longrightarrow> handle_message P ws session_id message st =
                (None, st\<lparr>wire := wire st @
                   [(ws, SendJson (JObject [(''type'', JString ''completions''),
                                            (''request_id'', dict_get data ''request_id''),
                                            (''completions'', JArray (map JString names))]))]\<rparr>))
       \<and> global_settings (snd (handle_message P ws session_id message st)) = global_settings st
       \<and> (map_of body ''enable_autocomplete'' = Some v
          \<longrightarrow> enable_autocomplete
                (global_settings (snd (update_settings (Some ''teacher'') body st))) = py_bool v
            \<and> (v = JBool flag
               \<longrightarrow> enable_autocomplete
                     (global_settings (snd (update_settings (Some ''teacher'') body st))) = flag)
            \<and> (\<not> py_bool v
               \<longrightarrow> handle_message P ws session_id message
                     (snd (update_settings (Some ''teacher'') body st)) =
                     (None, st\<lparr>global_settings := (global_settings st)\<lparr>enable_autocomplete := False\<rparr>,
                               wire := wire st @
                        [(ws, SendJson (JObject [(''type'', JString ''completions''),
                                                 (''request_id'', dict_get data ''request_id''),
                                                 (''completions'', JArray [])]))]\<rparr>)))"
proof -
  have hm: "handle_message Q ws session_id message s = handle_get_completions Q ws session_id data s"
    if "json_loads Q message = Inr (JObject data)" for Q :: "('a, 'b, 'c, 'd) python" and s
    using that assms(2) by (simp add: handle_message_object)
  have hmP: "handle_message P ws session_id message s = handle_get_completions P ws session_id data s"
    for s
    using assms(1) by (rule hm)
  have a: "enable_autocomplete global_settings_init"
    by (simp add: global_settings_init_def)
  have b: "handle_message P ws session_id message st =
             (None, st\<lparr>wire := wire st @
                   [(ws, SendJson (JObject [(''type'', JString ''completions''),
                                            (''request_id'', dict_get data ''request_id''),
                                            (''completions'', JArray [])]))]\<rparr>)
           \<and> handle_message (P\<lparr>jedi_complete := provider\<rparr>) ws session_id message st =
               handle_message P ws session_id message st"
    if off: "\<not> enable_autocomplete (global_settings st)"
  proof -
    have "json_loads (P\<lparr>jedi_complete := provider\<rparr>) message = Inr (JObject data)"
      using assms(1) by simp
    then have "handle_message (P\<lparr>jedi_complete := provider\<rparr>) ws session_id message st =
                 handle_get_completions (P\<lparr>jedi_complete := provider\<rparr>) ws session_id data st"
      by (rule hm)
    then show ?thesis
      using off by (simp add: hmP handle_get_completions_disabled send_completions)
  qed
  have c: "handle_message P ws session_id message st =
             (None, st\<lparr>wire := wire st @
                   [(ws, SendJson (JObject [(''type'', JString ''completions''),
                                            (''request_id'', dict_get data ''request_id''),
                                            (''completions'', JArray (map JString names))]))]\<rparr>)"
    if "enable_autocomplete (global_settings st)" "map_of data ''code'' = Some code"
      "map_of data ''line'' = Some line" "map_of data ''column'' = Some column"
      "get_completions P session_id code line column st = Inr names"
    using that by (simp add: hmP handle_get_completions_enabled send_completions)
  have d: "global_settings (snd (handle_message P ws session_id message st)) = global_settings st"
    by (rule handle_message_settings)
  have e: "enable_autocomplete
             (global_settings (snd (update_settings (Some ''teacher'') body st))) = py_bool v
           \<and> (v = JBool flag
               \<longrightarrow> enable_autocomplete
                     (global_settings (snd (update_settings (Some ''teacher'') body st))) = flag)
           \<and> (\<not> py_bool v
               \<longrightarrow> handle_message P ws session_id message
                     (snd (update_settings (Some ''teacher'') body st)) =
                     (None, st\<lparr>global_settings := (global_settings st)\<lparr>enable_autocomplete := False\<rparr>,
                               wire := wire st @
                        [(ws, SendJson (JObject [(''type'', JString ''completions''),
                                                 (''request_id'', dict_get data ''request_id''),
                                                 (''completions'', JArray [])]))]\<rparr>))"
    if "map_of body ''enable_autocomplete'' = Some v"
    using that
    by (auto simp add: update_settings_teacher hmP handle_get_completions_disabled send_completions)
  show ?thesis
    using a b c d e by blast
qed

theorem autocomplete_flag_gates_completions_witness:
  \<open>json_loads mini
       ''{"type": "get_completions", "request_id": 7, "code": "p", "line": 0, "column": 1}'' =
     Inr (JObject [(''type'', JString ''get_completions''), (''request_id'', JInt 7),
                   (''code'', JString ''p''), (''line'', JInt 0), (''column'', JInt 1)])
   \<and> enable_autocomplete (global_settings one_session)
   \<and> get_completions mini ''s1'' (JString ''p'') (JInt 0) (JInt 1) one_session = Inr [''plt'', ''pd'']
   \<and> handle_message mini 1 ''s1''
         ''{"type": "get_completions", "request_id": 7, "code": "p", "line": 0, "column": 1}''
         one_session =
       (None, one_session\<lparr>wire := [(1, Accept),
          (1, SendJson (JObject [(''type'', JString ''completions''), (''request_id'', JInt 7),
                                 (''completions'', JArray [JString ''plt'', JString ''pd''])]))]\<rparr>)
   \<and> update_settings (Some ''teacher'') [(''enable_autocomplete'', JBool False)] one_session =
       (200, one_session\<lparr>global_settings := \<lparr>enable_autocomplete = False\<rparr>\<rparr>)
   \<and> handle_message mini 1 ''s1''
         ''{"type": "get_completions", "request_id": 7, "code": "p", "line": 0, "column": 1}''
         (one_session\<lparr>global_settings := \<lparr>enable_autocomplete = False\<rparr>\<rparr>) =
       (None, one_session\<lparr>global_settings := \<lparr>enable_autocomplete = False\<rparr>,
          wire := [(1, Accept),
          (1, SendJson (JObject [(''type'', JString ''completions''), (''request_id'', JInt 7),
                                 (''completions'', JArray [])]))]\<rparr>)
   \<and> update_settings (Some ''teacher'') [(''enable_autocomplete'', JBool True)]
         (one_session\<lparr>global_settings := \<lparr>enable_autocomplete = False\<rparr>\<rparr>) =
       (200, one_session\<lparr>global_settings := \<lparr>enable_autocomplete = True\<rparr>\<rparr>)\<close>
proof -
  let ?msg = \<open>''{"type": "get_completions", "request_id": 7, "code": "p", "line": 0, "column": 1}''\<close>
  let ?off = "one_session\<lparr>global_settings := \<lparr>enable_autocomplete = False\<rparr>\<rparr>"
  have l: \<open>json_loads mini ?msg =
     Inr (JObject [(''type'', JString ''get_completions''), (''request_id'', JInt 7),
                   (''code'', JString ''p''), (''line'', JInt 0), (''column'', JInt 1)])\<close>
    by code_simp
  have t: "dict_get [(''type'', JString ''get_completions''), (''request_id'', JInt 7),
                   (''code'', JString ''p''), (''line'', JInt 0), (''column'', JInt 1)] ''type''
             = JString ''get_completions''"
    by (simp add: dict_get_def)
  have on: "enable_autocomplete (global_settings one_session)"
    by (simp add: one_session_fields)
  have g: "get_completions mini ''s1'' (JString ''p'') (JInt 0) (JInt 1) one_session
             = Inr [''plt'', ''pd'']"
    by (simp add: get_completions_def one_session_s1 mini_def mini_complete_def)
  have u1: "update_settings (Some ''teacher'') [(''enable_autocomplete'', JBool False)] one_session =
       (200, ?off)"
    by (simp add: update_settings_def one_session_fields)
  have u2: "update_settings (Some ''teacher'') [(''enable_autocomplete'', JBool True)] ?off =
       (200, one_session\<lparr>global_settings := \<lparr>enable_autocomplete = True\<rparr>\<rparr>)"
    by (simp add: update_settings_def)
  have r1: \<open>handle_message mini 1 ''s1'' ?msg one_session =
       (None, one_session\<lparr>wire := [(1, Accept),
          (1, SendJson (JObject [(''type'', JString ''completions''), (''request_id'', JInt 7),
                                 (''completions'', JArray [JString ''plt'', JString ''pd''])]))]\<rparr>)\<close>
    using autocomplete_flag_gates_completions [OF l t, where ws = 1 and session_id = "''s1''"
      and st = one_session and code = "JString ''p''" and line = "JInt 0" and column = "JInt 1"
      and names = "[''plt'', ''pd'']" and body = "[(''enable_autocomplete'', JBool False)]"
      and v = "JBool False" and flag = False and provider = "jedi_complete mini"] on g
    by (simp add: dict_get_def one_session_fields)
  have r2: \<open>handle_message mini 1 ''s1'' ?msg ?off =
       (None, one_session\<lparr>global_settings := \<lparr>enable_autocomplete = False\<rparr>,
          wire := [(1, Accept),
          (1, SendJson (JObject [(''type'', JString ''completions''), (''request_id'', JInt 7),
                                 (''completions'', JArray [])]))]\<rparr>)\<close>
    using autocomplete_flag_gates_completions [OF l t, where ws = 1 and session_id = "''s1''"
      and st = one_session and code = "JString ''p''" and line = "JInt 0" and column = "JInt 1"
      and names = "[''plt'', ''pd'']" and body = "[(''enable_autocomplete'', JBool False)]"
      and v = "JBool False" and flag = False and provider = "jedi_complete mini"] u1
    by (simp add: dict_get_def one_session_fields)
  show ?thesis
    using l on g u1 u2 r1 r2 by simp
qed

subsection \<open>The steps of a cell\<close>

lemma trailing_expr_snoc_Expr: "trailing_expr (pre @ [Expr e]) = Some e"
  by (simp add: trailing_expr_def)










lemma execute_figure_populated:
  "figs m \<noteq> [] \<Longrightarrow> axes (last (figs m)) \<noteq> [] \<Longrightarrow> savefig P (last (figs m)) = Inr png \<Longrightarrow>
   execute_figure P m =
     buf_write (img_fragment (b64encode png)) (m\<lparr>figs := butlast (figs m)\<rparr>)"
  by (simp add: execute_figure_def gcf_def plt_close_def)

lemma execute_figure_savefig_error:
  "figs m \<noteq> [] \<Longrightarrow> axes (last (figs m)) \<noteq> [] \<Longrightarrow> savefig P (last (figs m)) = Inl e \<Longrightarrow>
   execute_figure P m = (Some e, m)"
  by (simp add: execute_figure_def gcf_def)


lemma execute_figure_blank:
  "figs m \<noteq> [] \<Longrightarrow> axes (last (figs m)) = [] \<Longrightarrow> execute_figure P m = (None, m)"
  by (simp add: execute_figure_def gcf_def)












subsection \<open>The miniature interpreter, evaluated\<close>




subsection \<open>Displaying the value of a trailing expression\<close>




subsection \<open>A cell that raises\<close>





end
